theory Spec2Isabelle
  imports Complex_Main "HOL-Library.AList"
begin

section \<open>Python values\<close>

text \<open>
  The documents handled by \<^verbatim>\<open>dict_definition.py\<close> are nested Python values: \<^verbatim>\<open>None\<close>,
  booleans, integers, floats, strings, lists, string-keyed dictionaries and
  \<^verbatim>\<open>datetime.datetime\<close> instants. A dictionary is an association list in insertion
  order (Python dictionaries iterate in insertion order); a well-formed dictionary has
  distinct keys. A finite float is denoted by the rational number it represents (Python
  compares an \<^verbatim>\<open>int\<close> with a \<^verbatim>\<open>float\<close> exactly); NaN and the infinities are left out.
  An instant is denoted by an integer time stamp. Documents are trees: no dictionary or
  list object occurs twice inside one document, so that an in-place mutation of a nested
  dictionary is the replacement of the value stored under its key.
\<close>

datatype pyval =
    VNone
  | VBool bool
  | VInt int
  | VFloat rat
  | VStr string
  | VList "pyval list"
  | VDict "(string \<times> pyval) list"
  | VDateTime int

type_synonym pydict = "(string \<times> pyval) list"

text \<open>The exceptions that the code can raise while it handles a document.\<close>

datatype pyerr = NameError | TypeError | AttributeError

text \<open>The classes named by the \<^verbatim>\<open>type\<close> attribute of the field classes.\<close>

datatype pytype = TStr | TInt | TFloat | TBool | TList | TDict | TDateTime

text \<open>\<^verbatim>\<open>isinstance(value, t)\<close> for one class: \<^verbatim>\<open>bool\<close> is a subclass of \<^verbatim>\<open>int\<close>.\<close>

fun isinstance1 :: "pyval \<Rightarrow> pytype \<Rightarrow> bool" where
  "isinstance1 (VStr _) TStr = True"
| "isinstance1 (VInt _) TInt = True"
| "isinstance1 (VBool _) TInt = True"
| "isinstance1 (VFloat _) TFloat = True"
| "isinstance1 (VBool _) TBool = True"
| "isinstance1 (VList _) TList = True"
| "isinstance1 (VDict _) TDict = True"
| "isinstance1 (VDateTime _) TDateTime = True"
| "isinstance1 _ _ = False"

text \<open>\<^verbatim>\<open>isinstance(value, types)\<close> for a class or a tuple of classes.\<close>

definition isinstance :: "pyval \<Rightarrow> pytype list \<Rightarrow> bool" where
  "isinstance v ts = list_ex (isinstance1 v) ts"

text \<open>The number a numeric value denotes (\<^verbatim>\<open>True\<close> is 1, \<^verbatim>\<open>False\<close> is 0).\<close>

fun num_of :: "pyval \<Rightarrow> rat option" where
  "num_of (VBool b) = Some (if b then 1 else 0)"
| "num_of (VInt i) = Some (of_int i)"
| "num_of (VFloat r) = Some r"
| "num_of _ = None"

text \<open>
  Python's \<^verbatim>\<open>==\<close> on values: numbers are compared by value across \<^verbatim>\<open>bool\<close>,
  \<^verbatim>\<open>int\<close> and \<^verbatim>\<open>float\<close>, lists element by element, dictionaries key by key
  whatever their order.
\<close>

function (sequential) py_eq :: "pyval \<Rightarrow> pyval \<Rightarrow> bool"
  and py_eq_list :: "pyval list \<Rightarrow> pyval list \<Rightarrow> bool"
  and py_eq_items :: "pydict \<Rightarrow> pydict \<Rightarrow> bool" where
  "py_eq VNone VNone = True"
| "py_eq (VStr s) (VStr t) = (s = t)"
| "py_eq (VDateTime s) (VDateTime t) = (s = t)"
| "py_eq (VList xs) (VList ys) = py_eq_list xs ys"
| "py_eq (VDict d) (VDict e) = (length d = length e \<and> py_eq_items d e)"
| "py_eq a b = (case (num_of a, num_of b) of (Some x, Some y) \<Rightarrow> x = y | _ \<Rightarrow> False)"
| "py_eq_list [] [] = True"
| "py_eq_list (x # xs) (y # ys) = (py_eq x y \<and> py_eq_list xs ys)"
| "py_eq_list _ _ = False"
| "py_eq_items [] e = True"
| "py_eq_items ((k, v) # d) e =
     (case map_of e k of None \<Rightarrow> False | Some w \<Rightarrow> py_eq v w \<and> py_eq_items d e)"
  by pat_completeness auto

termination
  by (relation "measure (\<lambda>x. case x of
        Inl (a, b) \<Rightarrow> 2 * size a
      | Inr (Inl (xs, ys)) \<Rightarrow> 2 * size_list size xs + 1
      | Inr (Inr (d, e)) \<Rightarrow> 2 * size_list (size_prod (\<lambda>_. 0) size) d + 1)")
    simp_all

text \<open>
  \<^verbatim>\<open>key in document\<close> and \<^verbatim>\<open>document.get(key)\<close> for a string key. A nested
  document is whatever value the outer document holds, so both are given for every
  value: \<^verbatim>\<open>in\<close> is key membership on a dictionary, element membership on a list,
  the substring test on a string, and raises \<^verbatim>\<open>TypeError\<close> on the values that are
  not containers; only a dictionary has \<^verbatim>\<open>get\<close>.
\<close>

fun is_substring :: "string \<Rightarrow> string \<Rightarrow> bool" where
  "is_substring k [] = (k = [])"
| "is_substring k (c # s) = (take (length k) (c # s) = k \<or> is_substring k s)"

fun py_contains :: "pyval \<Rightarrow> string \<Rightarrow> pyerr + bool" where
  "py_contains (VDict d) key = Inr (map_of d key \<noteq> None)"
| "py_contains (VList xs) key = Inr (list_ex (py_eq (VStr key)) xs)"
| "py_contains (VStr s) key = Inr (is_substring key s)"
| "py_contains _ key = Inl TypeError"

definition dict_get :: "pydict \<Rightarrow> string \<Rightarrow> pyval" where
  "dict_get d key = (case map_of d key of None \<Rightarrow> VNone | Some v \<Rightarrow> v)"

fun py_get :: "pyval \<Rightarrow> string \<Rightarrow> pyerr + pyval" where
  "py_get (VDict d) key = Inr (dict_get d key)"
| "py_get _ key = Inl AttributeError"

text \<open>
  \<^verbatim>\<open>d[key] = value\<close>, \<^verbatim>\<open>d.pop(key)\<close> for a key that is present, and
  \<^verbatim>\<open>d.update(e)\<close> on dictionaries: an assignment keeps the position of a key that is
  present and appends a new key.
\<close>

definition dict_set :: "pydict \<Rightarrow> string \<Rightarrow> pyval \<Rightarrow> pydict" where
  "dict_set d key value = AList.update key value d"

definition dict_pop :: "pydict \<Rightarrow> string \<Rightarrow> pydict" where
  "dict_pop d key = AList.delete key d"

definition dict_update :: "pydict \<Rightarrow> pydict \<Rightarrow> pydict" where
  "dict_update d e = fold (\<lambda>(k, v) acc. dict_set acc k v) e d"

section \<open>Field definitions\<close>

text \<open>
  \<^verbatim>\<open>choices\<close> is a list or a dictionary (\<^verbatim>\<open>value in choices\<close> is then a test on its
  keys, which hashes the value: lists and dictionaries are unhashable).
\<close>

datatype choices = ChoiceList "pyval list" | ChoiceDict "(pyval \<times> pyval) list"

fun hashable :: "pyval \<Rightarrow> bool" where
  "hashable (VList _) = False"
| "hashable (VDict _) = False"
| "hashable _ = True"

fun py_in_choices :: "pyval \<Rightarrow> choices \<Rightarrow> pyerr + bool" where
  "py_in_choices value (ChoiceList xs) = Inr (list_ex (py_eq value) xs)"
| "py_in_choices value (ChoiceDict kvs) =
     (if hashable value then Inr (list_ex (\<lambda>kv. py_eq value (fst kv)) kvs)
      else Inl TypeError)"

text \<open>
  The \<^verbatim>\<open>default\<close> attribute is a value (\<^verbatim>\<open>None\<close> when no default is configured) or a
  callable. A callable stands in the field it is called with, so it is represented by a
  code \<open>'g\<close>, and the functions that call it take the interpretation
  \<open>call :: 'g \<Rightarrow> 'g field \<Rightarrow> pyval\<close> of the codes: the callables are pure and return.
\<close>

datatype 'g pydefault = DValue pyval | DCallable 'g

text \<open>
  A field object carries the attributes of \<^verbatim>\<open>Field.__init__\<close> and its class with the
  attributes the class adds: the compiled \<^verbatim>\<open>regex\<close> of a \<^verbatim>\<open>StringField\<close> is the
  predicate "the pattern matches at the start of the string"; \<^verbatim>\<open>min\<close> and \<^verbatim>\<open>max\<close> of
  the number fields are numbers; the \<^verbatim>\<open>inner_type\<close> of a \<^verbatim>\<open>ListField\<close> is a field
  object; the \<^verbatim>\<open>model\<close> of a \<^verbatim>\<open>DefinedDictField\<close> is a \<^verbatim>\<open>DefinedDict\<close> class, given
  by its field table \<^verbatim>\<open>_fields\<close> in insertion order.
\<close>

datatype 'g field =
  FieldObj (is_required: bool) (choices: "choices option") (default_attr: "'g pydefault")
    (cls: "'g field_class")
and 'g field_class =
    Field
  | StringField "(string \<Rightarrow> bool) option"
  | NumberField "rat option" "rat option"
  | IntField "rat option" "rat option"
  | FloatField "rat option" "rat option"
  | BoolField
  | ListField "'g field option"
  | DictField
  | DefinedDictField "(string \<times> 'g field) list"
  | DateTimeField

type_synonym 'g schema = "(string \<times> 'g field) list"

text \<open>\<^verbatim>\<open>NumberField.__init__\<close>: the bounds are kept only when there are no choices.\<close>

definition NumberField_init ::
  "rat option \<Rightarrow> rat option \<Rightarrow> bool \<Rightarrow> choices option \<Rightarrow> 'g pydefault \<Rightarrow> 'g field" where
  "NumberField_init mn mx req ch d =
     FieldObj req ch d (if ch = None then NumberField mn mx else NumberField None None)"

definition IntField_init ::
  "rat option \<Rightarrow> rat option \<Rightarrow> bool \<Rightarrow> choices option \<Rightarrow> 'g pydefault \<Rightarrow> 'g field" where
  "IntField_init mn mx req ch d =
     FieldObj req ch d (if ch = None then IntField mn mx else IntField None None)"

definition FloatField_init ::
  "rat option \<Rightarrow> rat option \<Rightarrow> bool \<Rightarrow> choices option \<Rightarrow> 'g pydefault \<Rightarrow> 'g field" where
  "FloatField_init mn mx req ch d =
     FieldObj req ch d (if ch = None then FloatField mn mx else FloatField None None)"

text \<open>The \<^verbatim>\<open>type\<close> attribute: \<^verbatim>\<open>Field\<close> and \<^verbatim>\<open>NumberField\<close> set none.\<close>

fun type_attr :: "'g field_class \<Rightarrow> pytype list option" where
  "type_attr Field = None"
| "type_attr (StringField _) = Some [TStr]"
| "type_attr (NumberField _ _) = None"
| "type_attr (IntField _ _) = Some [TInt]"
| "type_attr (FloatField _ _) = Some [TFloat, TInt]"
| "type_attr BoolField = Some [TBool]"
| "type_attr (ListField _) = Some [TList]"
| "type_attr DictField = Some [TDict]"
| "type_attr (DefinedDictField _) = Some [TDict]"
| "type_attr DateTimeField = Some [TDateTime]"

definition is_valid_type :: "'g field \<Rightarrow> pyval \<Rightarrow> bool" where
  "is_valid_type f value =
     (case type_attr (cls f) of
        None \<Rightarrow> True
      | Some ts \<Rightarrow> if value = VNone then True else isinstance value ts)"

text \<open>\<^verbatim>\<open>Field.get_error\<close>: the result is \<^verbatim>\<open>None\<close> or a pair (kind, value).\<close>

definition Field_get_error :: "'g field \<Rightarrow> pyval \<Rightarrow> pyerr + (string \<times> pyval) option" where
  "Field_get_error f value =
     (if \<not> is_valid_type f value then Inr (Some (''type'', value))
      else case choices f of
        None \<Rightarrow> Inr None
      | Some ch \<Rightarrow>
          (case py_in_choices value ch of
             Inl e \<Rightarrow> Inl e
           | Inr present \<Rightarrow> if \<not> present then Inr (Some (''value'', value)) else Inr None))"

text \<open>
  \<^verbatim>\<open>value < bound\<close> and \<^verbatim>\<open>value >= bound\<close> against a number: a value that is not a
  number raises \<^verbatim>\<open>TypeError\<close>.
\<close>

definition py_lt :: "pyval \<Rightarrow> rat \<Rightarrow> pyerr + bool" where
  "py_lt value bound = (case num_of value of None \<Rightarrow> Inl TypeError | Some x \<Rightarrow> Inr (x < bound))"

definition py_ge :: "pyval \<Rightarrow> rat \<Rightarrow> pyerr + bool" where
  "py_ge value bound = (case num_of value of None \<Rightarrow> Inl TypeError | Some x \<Rightarrow> Inr (x \<ge> bound))"

text \<open>\<^verbatim>\<open>StringField.get_error\<close>: \<^verbatim>\<open>regex.match\<close> raises \<^verbatim>\<open>TypeError\<close> on a value that is not a string.\<close>

definition StringField_get_error ::
  "(string \<Rightarrow> bool) option \<Rightarrow> 'g field \<Rightarrow> pyval \<Rightarrow> pyerr + (string \<times> pyval) option" where
  "StringField_get_error regex f value =
     (case Field_get_error f value of
        Inl e \<Rightarrow> Inl e
      | Inr (Some parent_error) \<Rightarrow> Inr (Some parent_error)
      | Inr None \<Rightarrow>
          (case regex of
             None \<Rightarrow> Inr None
           | Some matches \<Rightarrow>
               (case value of
                  VStr s \<Rightarrow> if \<not> matches s then Inr (Some (''value'', value)) else Inr None
                | _ \<Rightarrow> Inl TypeError)))"

text \<open>\<^verbatim>\<open>NumberField.get_error\<close>, with the short-circuit evaluation of \<^verbatim>\<open>and\<close> and \<^verbatim>\<open>or\<close>.\<close>

definition NumberField_get_error ::
  "rat option \<Rightarrow> rat option \<Rightarrow> 'g field \<Rightarrow> pyval \<Rightarrow> pyerr + (string \<times> pyval) option" where
  "NumberField_get_error mn mx f value =
     (case Field_get_error f value of
        Inl e \<Rightarrow> Inl e
      | Inr (Some parent_error) \<Rightarrow> Inr (Some parent_error)
      | Inr None \<Rightarrow>
          if value = VNone then Inr None
          else
            (case (case mn of None \<Rightarrow> Inr False | Some lo \<Rightarrow> py_lt value lo) of
               Inl e \<Rightarrow> Inl e
             | Inr True \<Rightarrow> Inr (Some (''value (out of range)'', value))
             | Inr False \<Rightarrow>
                 (case (case mx of None \<Rightarrow> Inr False | Some hi \<Rightarrow> py_ge value hi) of
                    Inl e \<Rightarrow> Inl e
                  | Inr True \<Rightarrow> Inr (Some (''value (out of range)'', value))
                  | Inr False \<Rightarrow> Inr None)))"

text \<open>
  \<^verbatim>\<open>ListField.get_error\<close> binds the parent's result to the name \<^verbatim>\<open>paraent_error\<close> and
  then reads the name \<^verbatim>\<open>parent_error\<close>, which is bound nowhere: once the parent's
  check has returned, the method raises \<^verbatim>\<open>NameError\<close>, and the statements after it
  (the \<^verbatim>\<open>None\<close> test and the loop over the elements) are never reached.
\<close>

definition ListField_get_error ::
  "'g field option \<Rightarrow> 'g field \<Rightarrow> pyval \<Rightarrow> pyerr + (string \<times> pyval) option" where
  "ListField_get_error inner_type f value =
     (case Field_get_error f value of
        Inl e \<Rightarrow> Inl e
      | Inr paraent_error \<Rightarrow> Inl NameError)"

text \<open>The method \<^verbatim>\<open>get_error\<close> of a field object, by its class.\<close>

definition get_error :: "'g field \<Rightarrow> pyval \<Rightarrow> pyerr + (string \<times> pyval) option" where
  "get_error f value =
     (case cls f of
        StringField regex \<Rightarrow> StringField_get_error regex f value
      | NumberField mn mx \<Rightarrow> NumberField_get_error mn mx f value
      | IntField mn mx \<Rightarrow> NumberField_get_error mn mx f value
      | FloatField mn mx \<Rightarrow> NumberField_get_error mn mx f value
      | ListField inner_type \<Rightarrow> ListField_get_error inner_type f value
      | _ \<Rightarrow> Field_get_error f value)"

section \<open>Document operations\<close>

text \<open>
  The error tuples that validation yields: \<^verbatim>\<open>(key_string,) + error\<close>, a triple, and
  \<^verbatim>\<open>(key_string, "required")\<close>, a pair.
\<close>

datatype errtuple = Err3 string string pyval | Err2 string string

text \<open>\<^verbatim>\<open>key if not parent else ".".join([parent, key])\<close>: \<^verbatim>\<open>not parent\<close> holds of \<^verbatim>\<open>None\<close> and of the empty string.\<close>

definition key_string_of :: "string option \<Rightarrow> string \<Rightarrow> string" where
  "key_string_of parent key =
     (case parent of
        None \<Rightarrow> key
      | Some p \<Rightarrow> if p = [] then key else p @ ''.'' @ key)"

text \<open>
  \<^verbatim>\<open>DefinedDict._get_document_errors\<close> is a generator. Its run is the list of the tuples
  it yields, in order, and the exception that ends it, if one does: the tuples before
  the exception have been handed to the consumer when it is raised.
\<close>

function get_document_errors_gen ::
  "'g schema \<Rightarrow> pyval \<Rightarrow> string option \<Rightarrow> errtuple list \<times> pyerr option" where
  "get_document_errors_gen [] document parent = ([], None)"
| "get_document_errors_gen ((key, definition) # rest) document parent =
     (let key_string = key_string_of parent key in
      case py_contains document key of
        Inl e \<Rightarrow> ([], Some e)
      | Inr True \<Rightarrow>
          (case py_get document key of
             Inl e \<Rightarrow> ([], Some e)
           | Inr value \<Rightarrow>
               (case get_error definition value of
                  Inl e \<Rightarrow> ([], Some e)
                | Inr error \<Rightarrow>
                    (let own = (case error of
                                  None \<Rightarrow> []
                                | Some (kind, v) \<Rightarrow> [Err3 key_string kind v]) in
                     case cls definition of
                       DefinedDictField model \<Rightarrow>
                         (case get_document_errors_gen model value (Some key_string) of
                            (nested, Some e) \<Rightarrow> (own @ nested, Some e)
                          | (nested, None) \<Rightarrow>
                              (case get_document_errors_gen rest document parent of
                                 (more, r) \<Rightarrow> (own @ nested @ more, r)))
                     | _ \<Rightarrow>
                         (case get_document_errors_gen rest document parent of
                            (more, r) \<Rightarrow> (own @ more, r)))))
      | Inr False \<Rightarrow>
          (if is_required definition
           then (case get_document_errors_gen rest document parent of
                   (more, r) \<Rightarrow> (Err2 key_string ''required'' # more, r))
           else get_document_errors_gen rest document parent))"
  by pat_completeness auto

termination
  apply (relation "measure (\<lambda>(fields, document, parent).
        size_list (size_prod (\<lambda>_. 0) size) fields)")
     apply simp_all
  apply (case_tac "definition"; simp)
  done

text \<open>\<^verbatim>\<open>get_document_errors\<close>: \<^verbatim>\<open>list\<close> drains the generator, and an exception escapes it.\<close>

definition get_document_errors :: "'g schema \<Rightarrow> pyval \<Rightarrow> pyerr + errtuple list" where
  "get_document_errors fields document =
     (case get_document_errors_gen fields document None of
        (errors, Some e) \<Rightarrow> Inl e
      | (errors, None) \<Rightarrow> Inr errors)"

text \<open>
  \<^verbatim>\<open>is_valid\<close>: \<^verbatim>\<open>next\<close> runs the generator up to its first tuple; the result is
  \<^verbatim>\<open>False\<close> when there is one, \<^verbatim>\<open>True\<close> when the generator ends first, and an
  exception raised before the first tuple escapes.
\<close>

definition is_valid :: "'g schema \<Rightarrow> pyval \<Rightarrow> pyerr + bool" where
  "is_valid fields document =
     (case get_document_errors_gen fields document None of
        (first # errors, r) \<Rightarrow> Inr False
      | ([], Some e) \<Rightarrow> Inl e
      | ([], None) \<Rightarrow> Inr True)"

text \<open>\<^verbatim>\<open>Field.get_default_value\<close>.\<close>

definition Field_get_default_value :: "('g \<Rightarrow> 'g field \<Rightarrow> pyval) \<Rightarrow> 'g field \<Rightarrow> pyval" where
  "Field_get_default_value call f =
     (case default_attr f of
        DValue v \<Rightarrow> v
      | DCallable g \<Rightarrow> call g f)"

text \<open>
  \<^verbatim>\<open>get_default_value\<close> of a field object (\<^verbatim>\<open>DefinedDictField\<close> overrides it with the
  model's \<^verbatim>\<open>make_default\<close>) and \<^verbatim>\<open>DefinedDict.make_default\<close>, whose loop fills the
  dictionary \<^verbatim>\<open>default\<close> (here \<open>default'\<close>).
\<close>

function get_default_value :: "('g \<Rightarrow> 'g field \<Rightarrow> pyval) \<Rightarrow> 'g field \<Rightarrow> pyval"
  and make_default :: "('g \<Rightarrow> 'g field \<Rightarrow> pyval) \<Rightarrow> 'g schema \<Rightarrow> pydict"
  and make_default_loop :: "('g \<Rightarrow> 'g field \<Rightarrow> pyval) \<Rightarrow> 'g schema \<Rightarrow> pydict \<Rightarrow> pydict" where
  "get_default_value call f =
     (case cls f of
        DefinedDictField model \<Rightarrow> VDict (make_default call model)
      | _ \<Rightarrow> Field_get_default_value call f)"
| "make_default call fields = make_default_loop call fields []"
| "make_default_loop call [] default' = default'"
| "make_default_loop call ((key, definition) # rest) default' =
     make_default_loop call rest
       (if default_attr definition \<noteq> DValue VNone
        then dict_set default' key (get_default_value call definition)
        else default')"
  by pat_completeness auto

termination
  apply (relation "measure (\<lambda>x. case x of
        Inl (call, f) \<Rightarrow> 3 * size f
      | Inr (Inl (call, fields)) \<Rightarrow> 3 * size_list (size_prod (\<lambda>_. 0) size) fields + 2
      | Inr (Inr (call, fields, default')) \<Rightarrow>
          3 * size_list (size_prod (\<lambda>_. 0) size) fields + 1)")
      apply simp_all
  apply (case_tac f; simp)
  done

text \<open>
  \<^verbatim>\<open>DefinedDict.clean\<close> mutates the dictionary \<^verbatim>\<open>document\<close> in place; the model returns
  the dictionary after the call. The nested call \<^verbatim>\<open>definition.model.clean(document.get(key))\<close>
  passes the nested dictionary alone, so the four flags take their defaults there. The
  keys to remove are taken from a set difference; they are distinct and the removals
  commute, so they are done in the order of the document.
\<close>

function clean ::
  "('g \<Rightarrow> 'g field \<Rightarrow> pyval) \<Rightarrow> 'g schema \<Rightarrow> pydict \<Rightarrow> bool \<Rightarrow> bool \<Rightarrow> bool \<Rightarrow> bool \<Rightarrow> pydict"
  and clean_loop ::
  "('g \<Rightarrow> 'g field \<Rightarrow> pyval) \<Rightarrow> 'g schema \<Rightarrow> pydict \<Rightarrow> bool \<Rightarrow> bool \<Rightarrow> bool \<Rightarrow> pydict" where
  "clean call fields document set_default remove_undefined allow_none populate_none =
     (let document' = clean_loop call fields document set_default allow_none populate_none in
      if remove_undefined
      then fold (\<lambda>key d. dict_pop d key)
             (filter (\<lambda>key. key \<notin> set (map fst fields)) (map fst document')) document'
      else document')"
| "clean_loop call [] document set_default allow_none populate_none = document"
| "clean_loop call ((key, definition) # rest) document set_default allow_none populate_none =
     clean_loop call rest
       (if map_of document key = None
        then
          (if default_attr definition \<noteq> DValue VNone \<and> set_default
           then dict_set document key (get_default_value call definition)
           else if populate_none then dict_set document key VNone
           else document)
        else
          (if dict_get document key = VNone \<and> \<not> allow_none then dict_pop document key
           else
             (case cls definition of
                DefinedDictField model \<Rightarrow>
                  (case dict_get document key of
                     VDict nested \<Rightarrow>
                       dict_set document key (VDict (clean call model nested True True False False))
                   | _ \<Rightarrow> document)
              | _ \<Rightarrow> document)))
       set_default allow_none populate_none"
  by pat_completeness auto

termination
  apply (relation "measure (\<lambda>x. case x of
        Inl (call, fields, rest) \<Rightarrow> 2 * size_list (size_prod (\<lambda>_. 0) size) fields + 1
      | Inr (call, fields, rest) \<Rightarrow> 2 * size_list (size_prod (\<lambda>_. 0) size) fields)")
     apply simp_all
  apply (case_tac "definition"; simp)
  done

text \<open>
  \<^verbatim>\<open>DefinedDict.update\<close> mutates \<^verbatim>\<open>document\<close> in place and can raise: \<^verbatim>\<open>items\<close> and
  \<^verbatim>\<open>get\<close> exist on dictionaries only, and the nested call receives whatever values the
  document and the patch hold. The model returns the document as the call leaves it
  and the exception that ended the call, if one did.
\<close>

function (sequential) update :: "'g schema \<Rightarrow> pyval \<Rightarrow> pyval \<Rightarrow> pyval \<times> pyerr option"
  and update_loop :: "'g schema \<Rightarrow> pyval \<Rightarrow> pydict \<Rightarrow> pyval \<times> pyerr option" where
  "update fields document (VDict new_value) = update_loop fields document new_value"
| "update fields document _ = (document, Some AttributeError)"
| "update_loop fields document [] = (document, None)"
| "update_loop fields document ((key, value) # rest) =
     (case map_of fields key of
        None \<Rightarrow> update_loop fields document rest
      | Some definition \<Rightarrow>
          (case document of
             VDict d \<Rightarrow>
               (if dict_get d key = VNone
                then update_loop fields (VDict (dict_set d key value)) rest
                else
                  (case cls definition of
                     DefinedDictField model \<Rightarrow>
                       (case update model (dict_get d key) value of
                          (nested, Some e) \<Rightarrow> (VDict (dict_set d key nested), Some e)
                        | (nested, None) \<Rightarrow>
                            update_loop fields (VDict (dict_set d key nested)) rest)
                   | _ \<Rightarrow>
                       (case (value, dict_get d key) of
                          (VDict patch, VDict old) \<Rightarrow>
                            update_loop fields
                              (VDict (dict_set d key (VDict (dict_update old patch)))) rest
                        | _ \<Rightarrow> update_loop fields (VDict (dict_set d key value)) rest)))
           | _ \<Rightarrow> (document, Some AttributeError)))"
  by pat_completeness auto

termination
  by (relation "measure (\<lambda>x. case x of
        Inl (fields, document, new_value) \<Rightarrow> 2 * size new_value
      | Inr (fields, document, items) \<Rightarrow>
          2 * size_list (size_prod (\<lambda>_. 0) size) items + 1)")
     simp_all

section \<open>Notions used in the statements\<close>

text \<open>The callable that returns the value \<open>v\<close> for every field it is called with.\<close>

definition returning :: "pyval \<Rightarrow> 'g \<Rightarrow> 'g field \<Rightarrow> pyval" where
  "returning v g f = v"

text \<open>\<^verbatim>\<open>isinstance(definition, DefinedDictField)\<close>.\<close>

definition is_DefinedDictField :: "'g field \<Rightarrow> bool" where
  "is_DefinedDictField f = (case cls f of DefinedDictField model \<Rightarrow> True | _ \<Rightarrow> False)"

text \<open>
  A schema has no null-valued default when no callable default returns \<^verbatim>\<open>None\<close>, in the
  schema and in the models of its nested-schema fields (a literal default is not
  \<^verbatim>\<open>None\<close>, since \<^verbatim>\<open>None\<close> stands for no default, and the default of a nested-schema
  field is the default document of its model).
\<close>

function no_null_defaults :: "('g \<Rightarrow> 'g field \<Rightarrow> pyval) \<Rightarrow> 'g schema \<Rightarrow> bool" where
  "no_null_defaults call [] = True"
| "no_null_defaults call ((key, definition) # rest) =
     ((case cls definition of
         DefinedDictField model \<Rightarrow> no_null_defaults call model
       | _ \<Rightarrow> (case default_attr definition of
                 DValue v \<Rightarrow> True
               | DCallable g \<Rightarrow> call g definition \<noteq> VNone))
      \<and> no_null_defaults call rest)"
  by pat_completeness auto

termination
  apply (relation "measure (\<lambda>(call, fields). size_list (size_prod (\<lambda>_. 0) size) fields)")
    apply simp_all
  apply (case_tac "definition"; simp)
  done

text \<open>
  A field table is a Python dictionary: its keys are distinct, and so are the keys of
  the models of its nested-schema fields.
\<close>

function keys_distinct :: "'g schema \<Rightarrow> bool"
  and models_keys_distinct :: "'g schema \<Rightarrow> bool" where
  "keys_distinct fields = (distinct (map fst fields) \<and> models_keys_distinct fields)"
| "models_keys_distinct [] = True"
| "models_keys_distinct ((key, definition) # rest) =
     ((case cls definition of
         DefinedDictField model \<Rightarrow> keys_distinct model
       | _ \<Rightarrow> True)
      \<and> models_keys_distinct rest)"
  by pat_completeness auto

termination
  apply (relation "measure (\<lambda>x. case x of
        Inl fields \<Rightarrow> 2 * size_list (size_prod (\<lambda>_. 0) size) fields + 1
      | Inr fields \<Rightarrow> 2 * size_list (size_prod (\<lambda>_. 0) size) fields)")
     apply simp_all
  apply (case_tac "definition"; simp)
  done

section \<open>Properties of the field definitions\<close>

text \<open>
  Claim C1: \<^verbatim>\<open>validateErrors\<close> (\<^verbatim>\<open>get_document_errors\<close>) and the \<^verbatim>\<open>get_error\<close> calls it
  makes never raise, also for a list field with an inner type and for a text field with
  a regex whose value is null. The code raises in both cases: validating a document
  that holds a list under a \<^verbatim>\<open>ListField\<close> key ends in \<^verbatim>\<open>NameError\<close>, and validating
  a document that holds \<^verbatim>\<open>None\<close> under the key of a \<^verbatim>\<open>StringField\<close> with a regex ends
  in \<^verbatim>\<open>TypeError\<close>, whatever the pattern is.
\<close>

theorem validate_raises:
  "get_document_errors
       [(''tags'', FieldObj False None (DValue VNone)
          (ListField (Some (IntField_init None None False None (DValue VNone)))))]
       (VDict [(''tags'', VList [VInt 1])]) = Inl NameError
   \<and> get_document_errors
       [(''name'', FieldObj False None (DValue VNone) (StringField (Some matches)))]
       (VDict [(''name'', VNone)]) = Inl TypeError
   \<and> get_error (FieldObj False None (DValue VNone) (StringField (Some matches))) VNone
       = Inl TypeError"
  by (simp add: get_error_def ListField_get_error_def StringField_get_error_def
      Field_get_error_def is_valid_type_def isinstance_def get_document_errors_def
      dict_get_def key_string_of_def)

text \<open>
  Claim C2: a list field with an inner field definition checks every element and
  returns the first failing element's error; a list of integers with one element that
  is not an integer yields that element's type error. The code never reaches the loop
  over the elements: \<^verbatim>\<open>ListField.get_error\<close> raises \<^verbatim>\<open>NameError\<close> on the list
  \<^verbatim>\<open>[1, "x"]\<close>, and validating \<^verbatim>\<open>{"tags": [1, "x"]}\<close> raises it too.
\<close>

theorem list_inner_error_raises:
  "get_error (FieldObj False None (DValue VNone)
       (ListField (Some (IntField_init None None False None (DValue VNone)))))
     (VList [VInt 1, VStr ''x'']) = Inl NameError
   \<and> get_document_errors
       [(''tags'', FieldObj False None (DValue VNone)
          (ListField (Some (IntField_init None None False None (DValue VNone)))))]
       (VDict [(''tags'', VList [VInt 1, VStr ''x''])]) = Inl NameError"
  by (simp add: get_error_def ListField_get_error_def Field_get_error_def is_valid_type_def
      isinstance_def get_document_errors_def dict_get_def key_string_of_def)

text \<open>No call of \<^verbatim>\<open>get_error\<close> on a list field returns, whatever the field and the value are.\<close>

lemma ListField_get_error_never_returns:
  "isl (get_error (FieldObj req ch d (ListField inner_type)) v)"
  by (simp add: get_error_def ListField_get_error_def split: sum.splits)

text \<open>
  Claim C3: for a number field with no choices and both bounds set, \<^verbatim>\<open>get_error\<close>
  reports an out-of-range error exactly when the value is below \<^verbatim>\<open>min\<close> or not below
  \<^verbatim>\<open>max\<close>. This holds for each of the three number classes and every number that
  passes the class's type check (there is no error at all otherwise); with \<^verbatim>\<open>min=0\<close>
  and \<^verbatim>\<open>max=10\<close>, 10 and -1 are out of range and 9 is accepted.
\<close>

theorem number_range:
  assumes "cls f = NumberField (Some lo) (Some hi) \<or> cls f = IntField (Some lo) (Some hi)
           \<or> cls f = FloatField (Some lo) (Some hi)"
    and "choices f = None"
    and "is_valid_type f v"
    and "num_of v = Some x"
  shows "get_error f v =
           (if x < lo \<or> hi \<le> x then Inr (Some (''value (out of range)'', v)) else Inr None)
         \<and> get_error (IntField_init (Some 0) (Some 10) req None d) (VInt 10)
             = Inr (Some (''value (out of range)'', VInt 10))
         \<and> get_error (IntField_init (Some 0) (Some 10) req None d) (VInt 9) = Inr None
         \<and> get_error (IntField_init (Some 0) (Some 10) req None d) (VInt (- 1))
             = Inr (Some (''value (out of range)'', VInt (- 1)))"
proof -
  have nn: "v \<noteq> VNone" using assms(4) by auto
  have par: "Field_get_error f v = Inr None"
    using assms(2,3) by (simp add: Field_get_error_def)
  have "NumberField_get_error (Some lo) (Some hi) f v =
      (if x < lo \<or> hi \<le> x then Inr (Some (''value (out of range)'', v)) else Inr None)"
    using nn par assms(4)
    by (auto simp: NumberField_get_error_def py_lt_def py_ge_def split: bool.splits)
  then have general: "get_error f v =
      (if x < lo \<or> hi \<le> x then Inr (Some (''value (out of range)'', v)) else Inr None)"
    using assms(1) by (auto simp: get_error_def)
  have examples: "get_error (IntField_init (Some 0) (Some 10) req None d) (VInt i) =
      (if i < 0 \<or> 10 \<le> i then Inr (Some (''value (out of range)'', VInt i)) else Inr None)"
    for i
    by (simp add: IntField_init_def get_error_def NumberField_get_error_def
        Field_get_error_def is_valid_type_def isinstance_def py_lt_def py_ge_def)
  show ?thesis
    using general by (simp add: examples)
qed

theorem number_range_witness:
  "get_error (IntField_init (Some 0) (Some 10) False None (DValue VNone) :: unit field)
       (VFloat (21 / 2))
     = Inr (Some (''type'', VFloat (21 / 2)))
   \<and> get_error (FloatField_init (Some 0) (Some 10) False None (DValue VNone) :: unit field)
       (VFloat (21 / 2))
     = Inr (Some (''value (out of range)'', VFloat (21 / 2)))
   \<and> get_error (FloatField_init (Some 0) (Some 10) False None (DValue VNone) :: unit field)
       (VBool True)
     = Inr None"
  using
    number_range [of "FloatField_init (Some 0) (Some 10) False None (DValue VNone) :: unit field"
      0 10 "VFloat (21 / 2)" "21 / 2"]
    number_range [of "FloatField_init (Some 0) (Some 10) False None (DValue VNone) :: unit field"
      0 10 "VBool True" 1]
  by (simp add: FloatField_init_def IntField_init_def is_valid_type_def isinstance_def
      get_error_def NumberField_get_error_def Field_get_error_def)

text \<open>
  Claim C10: an integer field with no choices reports no type error on a boolean: the
  type check is \<^verbatim>\<open>isinstance(value, int)\<close> and \<^verbatim>\<open>bool\<close> is a subclass of \<^verbatim>\<open>int\<close>. With
  no bounds the boolean is accepted outright, and a document that holds it under the
  integer field's key validates with no error.
\<close>

theorem int_field_accepts_bool:
  "is_valid_type (IntField_init mn mx req None d) (VBool b)
   \<and> get_error (IntField_init mn mx req None d) (VBool b) \<noteq> Inr (Some (''type'', VBool b))
   \<and> get_error (IntField_init None None req None d) (VBool b) = Inr None
   \<and> get_document_errors [(key, IntField_init None None req None d)] (VDict [(key, VBool b)])
       = Inr []"
  by (auto simp: IntField_init_def get_error_def NumberField_get_error_def Field_get_error_def
      is_valid_type_def isinstance_def get_document_errors_def dict_get_def key_string_of_def
      py_lt_def py_ge_def split: option.splits bool.splits sum.splits)

section \<open>Properties of validation\<close>

text \<open>
  When the generator runs to its end without an exception, a required field whose key
  is absent from the document has its \<^verbatim>\<open>required\<close> tuple among the tuples yielded.
\<close>

lemma required_in_run:
  "(F, f) \<in> set fields \<Longrightarrow> is_required f \<Longrightarrow> py_contains document F = Inr False \<Longrightarrow>
   get_document_errors_gen fields document parent = (errs, None) \<Longrightarrow>
   Err2 (key_string_of parent F) ''required'' \<in> set errs"
proof (induction fields arbitrary: errs)
  case Nil
  then show ?case by simp
next
  case (Cons a fields)
  obtain key d where a: "a = (key, d)" by (cases a)
  show ?case
  proof (cases "(F, f) = a")
    case True
    with Cons.prems a show ?thesis
      by (auto split: prod.splits)
  next
    case False
    with Cons.prems have mem: "(F, f) \<in> set fields" by simp
    from Cons.prems(4) a have "\<exists>more.
        get_document_errors_gen fields document parent = (more, None) \<and> set more \<subseteq> set errs"
      by (auto simp: Let_def split: sum.splits bool.splits prod.splits field_class.splits
          option.splits if_splits)
    then obtain more where
      more: "get_document_errors_gen fields document parent = (more, None)"
      and sub: "set more \<subseteq> set errs"
      by blast
    from Cons.IH [OF mem Cons.prems(2,3) more] sub show ?thesis by auto
  qed
qed

lemma required_reported:
  assumes "(F, f) \<in> set fields" and "is_required f" and "map_of d F = None"
    and "get_document_errors_gen fields (VDict d) None = (errs, None)"
  shows "get_document_errors fields (VDict d) = Inr errs \<and> Err2 F ''required'' \<in> set errs
         \<and> is_valid fields (VDict d) = Inr False"
proof -
  have "Err2 (key_string_of None F) ''required'' \<in> set errs"
    using required_in_run [OF assms(1,2) _ assms(4)] assms(3) by simp
  then have m: "Err2 F ''required'' \<in> set errs" by (simp add: key_string_of_def)
  then have "errs \<noteq> []" by auto
  then show ?thesis using m assms(4)
    by (cases errs) (simp_all add: get_document_errors_def is_valid_def)
qed

text \<open>
  Claim C4: for every schema with a required field \<open>F\<close> and every document without
  \<open>F\<close>'s key, \<^verbatim>\<open>validateErrors\<close> yields a \<^verbatim>\<open>required\<close> record at \<open>F\<close>'s path and
  \<^verbatim>\<open>isValid\<close> is false. The code does so only when no field before \<open>F\<close> raises: with a
  list field declared before the required field \<^verbatim>\<open>name\<close> and a document that holds a
  list under it, the generator raises \<^verbatim>\<open>NameError\<close> before it yields anything, so
  \<^verbatim>\<open>get_document_errors\<close> and \<^verbatim>\<open>is_valid\<close> both raise.
\<close>

theorem required_lost_to_exception:
  "get_document_errors
       [(''tags'', FieldObj False None (DValue VNone) (ListField None)),
        (''name'', FieldObj True None (DValue VNone) (StringField None))]
       (VDict [(''tags'', VList [])]) = Inl NameError
   \<and> is_valid
       [(''tags'', FieldObj False None (DValue VNone) (ListField None)),
        (''name'', FieldObj True None (DValue VNone) (StringField None))]
       (VDict [(''tags'', VList [])]) = Inl NameError
   \<and> get_document_errors_gen
       [(''tags'', FieldObj False None (DValue VNone) (ListField None)),
        (''name'', FieldObj True None (DValue VNone) (StringField None))]
       (VDict [(''tags'', VList [])]) None = ([], Some NameError)"
  by (simp add: get_error_def ListField_get_error_def Field_get_error_def is_valid_type_def
      isinstance_def get_document_errors_def is_valid_def dict_get_def key_string_of_def)

section \<open>Properties of the default document\<close>

lemma map_of_dict_set: "map_of (dict_set d k v) = (map_of d)(k \<mapsto> v)"
  by (simp add: dict_set_def update_conv')

lemma map_of_dict_pop: "map_of (dict_pop d k) = (map_of d)(k := None)"
  by (simp add: dict_pop_def delete_conv')

lemma make_default_loop_map_of:
  "distinct (map fst fields) \<Longrightarrow>
   map_of (make_default_loop call fields acc) key =
     (case map_of fields key of
        None \<Rightarrow> map_of acc key
      | Some f \<Rightarrow> if default_attr f = DValue VNone then map_of acc key
                  else Some (get_default_value call f))"
proof (induction fields arbitrary: acc)
  case Nil
  then show ?case by simp
next
  case (Cons a fields)
  obtain k f where a: "a = (k, f)" by (cases a)
  from Cons.prems a have d: "distinct (map fst fields)" and nk: "map_of fields k = None"
    by (auto simp: map_of_eq_None_iff)
  show ?case
    using nk by (simp add: a Cons.IH [OF d] map_of_dict_set del: get_default_value.simps
        split: option.splits)
qed

text \<open>
  Claim C5, as the code has it: \<^verbatim>\<open>make_default\<close> returns a dictionary that holds exactly
  the fields whose \<^verbatim>\<open>default\<close> is not \<^verbatim>\<open>None\<close>; a field that is not a
  \<^verbatim>\<open>DefinedDictField\<close> stores its literal default as it is, or the result of calling
  its callable default with the field object itself; a \<^verbatim>\<open>DefinedDictField\<close> with a
  default stores the default document of its model, whatever the default is; a field
  without default has no key. For the schema with \<^verbatim>\<open>a\<close> defaulting to 5, \<^verbatim>\<open>b\<close> to a
  callable returning 7 and \<^verbatim>\<open>c\<close> without default, the result is \<^verbatim>\<open>{a: 5, b: 7}\<close>.
\<close>

theorem make_default_contents:
  assumes "distinct (map fst fields)"
  shows "map_of (make_default call fields) key =
           (case map_of fields key of
              None \<Rightarrow> None
            | Some f \<Rightarrow>
                if default_attr f = DValue VNone then None
                else (case cls f of
                        DefinedDictField model \<Rightarrow> Some (VDict (make_default call model))
                      | _ \<Rightarrow> (case default_attr f of
                                DValue v \<Rightarrow> Some v
                              | DCallable g \<Rightarrow> Some (call g f))))
         \<and> make_default (returning (VInt 7))
              [(''a'', IntField_init None None False None (DValue (VInt 5))),
               (''b'', IntField_init None None False None (DCallable g)),
               (''c'', IntField_init None None False None (DValue VNone))]
             = [(''a'', VInt 5), (''b'', VInt 7)]"
proof -
  have "map_of (make_default call fields) key =
           (case map_of fields key of
              None \<Rightarrow> None
            | Some f \<Rightarrow> if default_attr f = DValue VNone then None
                  else Some (get_default_value call f))"
    using make_default_loop_map_of [OF assms, of call "[]" key]
    by (simp del: get_default_value.simps split: option.splits)
  then have general: "map_of (make_default call fields) key =
           (case map_of fields key of
              None \<Rightarrow> None
            | Some f \<Rightarrow>
                if default_attr f = DValue VNone then None
                else (case cls f of
                        DefinedDictField model \<Rightarrow> Some (VDict (make_default call model))
                      | _ \<Rightarrow> (case default_attr f of
                                DValue v \<Rightarrow> Some v
                              | DCallable g \<Rightarrow> Some (call g f))))"
    by (simp add: Field_get_default_value_def split: option.splits field_class.splits
        pydefault.splits)
  have example: "make_default (returning (VInt 7))
              [(''a'', IntField_init None None False None (DValue (VInt 5))),
               (''b'', IntField_init None None False None (DCallable g)),
               (''c'', IntField_init None None False None (DValue VNone))]
             = [(''a'', VInt 5), (''b'', VInt 7)]"
    by (simp add: IntField_init_def dict_set_def Field_get_default_value_def returning_def)
  show ?thesis using general example by blast
qed

theorem make_default_contents_witness:
  "map_of (make_default (returning (VInt 7))
      [(''a'', IntField_init None None False None (DValue (VInt 5))),
       (''b'', IntField_init None None False None (DCallable ())),
       (''c'', IntField_init None None False None (DValue VNone))]) ''b''
    = Some (returning (VInt 7) () (IntField_init None None False None (DCallable ())))
   \<and> map_of (make_default (returning (VInt 7))
      [(''a'', IntField_init None None False None (DValue (VInt 5))),
       (''b'', IntField_init None None False None (DCallable ())),
       (''c'', IntField_init None None False None (DValue VNone))]) ''c'' = None"
  using make_default_contents [of
      "[(''a'', IntField_init None None False None (DValue (VInt 5))),
       (''b'', IntField_init None None False None (DCallable ())),
       (''c'', IntField_init None None False None (DValue VNone))]"
      "returning (VInt 7)" "''b''" "()"]
    make_default_contents [of
      "[(''a'', IntField_init None None False None (DValue (VInt 5))),
       (''b'', IntField_init None None False None (DCallable ())),
       (''c'', IntField_init None None False None (DValue VNone))]"
      "returning (VInt 7)" "''c''" "()"]
  by (simp add: IntField_init_def returning_def del: make_default.simps)

text \<open>
  Claim C5 as it is stated says that a literal default is stored as it is. For a
  \<^verbatim>\<open>DefinedDictField\<close> it is not: with the literal default \<^verbatim>\<open>{y: 2}\<close> and a model whose
  field \<^verbatim>\<open>x\<close> defaults to 1, \<^verbatim>\<open>make_default\<close> stores \<^verbatim>\<open>{x: 1}\<close> under the key.
\<close>

theorem literal_default_not_stored_counterexample:
  "make_default (returning VNone)
     [(''n'', FieldObj False None (DValue (VDict [(''y'', VInt 2)]))
        (DefinedDictField [(''x'', IntField_init None None False None (DValue (VInt 1)))]))]
     = [(''n'', VDict [(''x'', VInt 1)])]
   \<and> map_of (make_default (returning VNone)
     [(''n'', FieldObj False None (DValue (VDict [(''y'', VInt 2)]))
        (DefinedDictField [(''x'', IntField_init None None False None (DValue (VInt 1)))]))])
       ''n'' \<noteq> Some (VDict [(''y'', VInt 2)])"
  by (simp add: IntField_init_def dict_set_def Field_get_default_value_def)


section \<open>Properties of the merge\<close>

text \<open>
  One pass of the loop of \<^verbatim>\<open>update\<close> over the patch assigns only under keys that the
  patch holds and the schema declares, keeps the document a dictionary, and does the
  same with or without the patch's undeclared keys.
\<close>

lemma update_loop_frame:
  "update_loop fields (VDict d) patch = (document', r) \<Longrightarrow>
   key \<notin> fst ` set patch \<inter> fst ` set fields \<Longrightarrow>
   \<exists>d'. document' = VDict d' \<and> map_of d' key = map_of d key"
proof (induction patch arbitrary: d)
  case Nil
  then show ?case by auto
next
  case (Cons a patch)
  obtain k v where a: "a = (k, v)" by (cases a)
  show ?case
  proof (cases "map_of fields k")
    case None
    then have "k \<notin> fst ` set fields" by (simp add: map_of_eq_None_iff)
    with Cons.prems a None show ?thesis
      by (intro Cons.IH [of d]) auto
  next
    case (Some f)
    then have kf: "k \<in> fst ` set fields" by (meson domI domIff map_of_eq_None_iff)
    with Cons.prems(2) a have ne: "key \<noteq> k" and rest: "key \<notin> fst ` set patch \<inter> fst ` set fields"
      by auto
    have step: "\<And>x. map_of (dict_set d k x) key = map_of d key"
      using ne by (simp add: map_of_dict_set)
    from Cons.prems(1) a Some consider
      (stop) x where "document' = VDict (dict_set d k x)"
      | (go) x where "update_loop fields (VDict (dict_set d k x)) patch = (document', r)"
      by (auto split: if_splits field_class.splits prod.splits option.splits pyval.splits)
    then show ?thesis
    proof cases
      case stop
      then show ?thesis using step by simp
    next
      case go
      from Cons.IH [OF go rest] step show ?thesis by simp
    qed
  qed
qed

lemma update_loop_dict:
  "update_loop fields (VDict d) patch = (document', r) \<Longrightarrow> \<exists>d'. document' = VDict d'"
proof (induction patch arbitrary: d)
  case Nil
  then show ?case by auto
next
  case (Cons a patch)
  obtain k v where a: "a = (k, v)" by (cases a)
  from Cons.prems a consider
    (stop) x where "document' = VDict x"
    | (go) x where "update_loop fields (VDict x) patch = (document', r)"
    by (auto split: if_splits field_class.splits prod.splits option.splits pyval.splits)
  then show ?case
    by cases (auto dest: Cons.IH)
qed

lemma update_loop_ignores_undeclared:
  "update_loop fields document patch =
   update_loop fields document (filter (\<lambda>kv. fst kv \<in> fst ` set fields) patch)"
proof (induction patch arbitrary: document)
  case Nil
  then show ?case by simp
next
  case (Cons a patch)
  obtain k v where a: "a = (k, v)" by (cases a)
  show ?case
  proof (cases "map_of fields k")
    case None
    then have "k \<notin> fst ` set fields" by (simp add: map_of_eq_None_iff)
    with None a Cons.IH show ?thesis by simp
  next
    case (Some f)
    then have kf: "k \<in> fst ` set fields" by (meson domI domIff map_of_eq_None_iff)
    show ?thesis
      using Some kf a Cons.IH
      by (simp split: pyval.splits field_class.splits prod.splits option.splits)
  qed
qed

text \<open>
  Claim C6: \<^verbatim>\<open>merge\<close> (\<^verbatim>\<open>update\<close>) modifies the document only at keys that are both in
  the patch and declared in the schema's field table. Whether the call returns or
  raises, the document it leaves has, under every other key, what it had before
  (a value or no entry), and the patch's undeclared keys are ignored: the call does
  the same as with the patch restricted to the declared keys.
\<close>

theorem update_frame:
  assumes "update fields (VDict d) (VDict patch) = (document', r)"
  shows "(\<exists>d'. document' = VDict d' \<and>
            (\<forall>key. key \<notin> fst ` set patch \<inter> fst ` set fields \<longrightarrow> map_of d' key = map_of d key))
         \<and> update fields (VDict d)
              (VDict (filter (\<lambda>kv. fst kv \<in> fst ` set fields) patch)) = (document', r)"
proof -
  from assms have run: "update_loop fields (VDict d) patch = (document', r)" by simp
  have frame: "\<exists>d'. document' = VDict d' \<and> map_of d' key = map_of d key"
    if "key \<notin> fst ` set patch \<inter> fst ` set fields" for key
    using update_loop_frame [OF run that] .
  have "\<exists>d'. document' = VDict d'"
    by (cases document') (use run in \<open>auto dest: update_loop_dict\<close>)
  then obtain d' where d': "document' = VDict d'" ..
  have "map_of d' key = map_of d key"
    if "key \<notin> fst ` set patch \<inter> fst ` set fields" for key
    using frame [OF that] d' by simp
  moreover have "update fields (VDict d)
      (VDict (filter (\<lambda>kv. fst kv \<in> fst ` set fields) patch)) = (document', r)"
    using run update_loop_ignores_undeclared [of fields "VDict d" patch] by simp
  ultimately show ?thesis using d' by blast
qed

theorem update_frame_witness:
  "update [(''a'', FieldObj False None (DValue VNone) DictField :: unit field)]
     (VDict [(''a'', VDict [(''b'', VInt 1)]), (''z'', VInt 3)])
     (VDict [(''a'', VDict [(''c'', VInt 2)]), (''z'', VInt 9), (''q'', VInt 1)])
   = (VDict [(''a'', VDict [(''b'', VInt 1), (''c'', VInt 2)]), (''z'', VInt 3)], None)
   \<and> update [(''a'', FieldObj False None (DValue VNone) DictField :: unit field)]
     (VDict [(''a'', VDict [(''b'', VInt 1)]), (''z'', VInt 3)])
     (VDict [(''a'', VDict [(''c'', VInt 2)])])
   = (VDict [(''a'', VDict [(''b'', VInt 1), (''c'', VInt 2)]), (''z'', VInt 3)], None)"
proof -
  have run: "update [(''a'', FieldObj False None (DValue VNone) DictField :: unit field)]
     (VDict [(''a'', VDict [(''b'', VInt 1)]), (''z'', VInt 3)])
     (VDict [(''a'', VDict [(''c'', VInt 2)]), (''z'', VInt 9), (''q'', VInt 1)])
   = (VDict [(''a'', VDict [(''b'', VInt 1), (''c'', VInt 2)]), (''z'', VInt 3)], None)"
    by (simp add: dict_get_def dict_set_def dict_update_def)
  from update_frame [OF run] run show ?thesis by simp
qed






section \<open>Properties of cleaning\<close>

text \<open>
  One turn of the loop of \<^verbatim>\<open>clean\<close> touches the entry of its own key only, and replaces
  a nested dictionary under a \<^verbatim>\<open>DefinedDictField\<close> key by its cleaning with the default
  flags.
\<close>

lemma clean_loop_step:
  "\<exists>X. clean_loop call ((k, f) # fields) document sd an pn = clean_loop call fields X sd an pn
     \<and> (\<forall>key. key \<noteq> k \<longrightarrow> map_of X key = map_of document key)
     \<and> (map_of document k = Some (VDict nested) \<longrightarrow> cls f = DefinedDictField model \<longrightarrow>
          map_of X k = Some (VDict (clean call model nested True True False False)))"
  apply (subst clean_loop.simps)
  apply (rule exI)
  apply (rule conjI)
   apply (rule refl)
  apply (auto simp: map_of_dict_set map_of_dict_pop dict_get_def
      simp del: clean.simps get_default_value.simps
      split: field_class.splits pyval.splits option.splits)
  done

lemma clean_loop_other:
  "key \<notin> fst ` set fields \<Longrightarrow>
   map_of (clean_loop call fields document sd an pn) key = map_of document key"
proof (induction fields arbitrary: document)
  case Nil
  then show ?case by simp
next
  case (Cons a fields)
  obtain k f where a: "a = (k, f)" by (cases a)
  from Cons.prems a have ne: "key \<noteq> k" and rest: "key \<notin> fst ` set fields" by auto
  from clean_loop_step [of call k f fields document sd an pn] obtain X where
    X: "clean_loop call ((k, f) # fields) document sd an pn = clean_loop call fields X sd an pn"
    and same: "map_of X key = map_of document key"
    using ne by blast
  show ?case
    unfolding a X using Cons.IH [OF rest, of X] same by simp
qed

lemma clean_loop_nested:
  "distinct (map fst fields) \<Longrightarrow> map_of fields key = Some definition \<Longrightarrow>
   cls definition = DefinedDictField model \<Longrightarrow> map_of document key = Some (VDict nested) \<Longrightarrow>
   map_of (clean_loop call fields document sd an pn) key =
     Some (VDict (clean call model nested True True False False))"
proof (induction fields arbitrary: document)
  case Nil
  then show ?case by simp
next
  case (Cons a fields)
  obtain k f where a: "a = (k, f)" by (cases a)
  from Cons.prems(1) a have d: "distinct (map fst fields)" and nk: "k \<notin> fst ` set fields"
    by auto
  from clean_loop_step [of call k f fields document sd an pn nested model] obtain X where
    X: "clean_loop call ((k, f) # fields) document sd an pn = clean_loop call fields X sd an pn"
    and same: "\<And>key. key \<noteq> k \<Longrightarrow> map_of X key = map_of document key"
    and here: "map_of document k = Some (VDict nested) \<Longrightarrow> cls f = DefinedDictField model \<Longrightarrow>
          map_of X k = Some (VDict (clean call model nested True True False False))"
    by blast
  show ?case
  proof (cases "k = key")
    case True
    with Cons.prems a have f: "f = definition" by simp
    from nk True have "key \<notin> fst ` set fields" by simp
    from clean_loop_other [OF this, of call X sd an pn] show ?thesis
      unfolding a X using here True f Cons.prems(3,4) by simp
  next
    case False
    with Cons.prems a have look: "map_of fields key = Some definition" by simp
    from same [of key] False Cons.prems(4) have "map_of X key = Some (VDict nested)" by simp
    from Cons.IH [OF d look Cons.prems(3) this] show ?thesis
      unfolding a X .
  qed
qed

lemma map_of_fold_dict_pop:
  "map_of (fold (\<lambda>key d. dict_pop d key) ks d) key = (if key \<in> set ks then None else map_of d key)"
  by (induction ks arbitrary: d) (auto simp: map_of_dict_pop)

text \<open>
  Claim C8: when \<^verbatim>\<open>clean\<close> meets a declared nested-schema field whose value is a
  dictionary, it cleans that dictionary with the default flags (\<^verbatim>\<open>set_default=True\<close>,
  \<^verbatim>\<open>remove_undefined=True\<close>, \<^verbatim>\<open>allow_none=False\<close>, \<^verbatim>\<open>populate_none=False\<close>), whatever
  flags the caller passed: the value left under the key is the nested dictionary
  cleaned with the default flags.
\<close>

theorem clean_nested_default_flags:
  assumes "distinct (map fst fields)" and "map_of fields key = Some definition"
    and "cls definition = DefinedDictField model"
    and "map_of document key = Some (VDict nested)"
  shows "map_of (clean call fields document set_default remove_undefined allow_none populate_none)
           key = Some (VDict (clean call model nested True True False False))"
proof -
  have "key \<in> fst ` set fields"
    using assms(2) by (meson domI domIff map_of_eq_None_iff)
  then show ?thesis
    using clean_loop_nested [OF assms, of call set_default allow_none populate_none]
    by (simp add: Let_def map_of_fold_dict_pop del: clean_loop.simps)
qed

theorem clean_nested_default_flags_witness:
  "map_of (clean (returning VNone)
       [(''a'', FieldObj False None (DValue VNone)
          (DefinedDictField [(''b'', FieldObj False None (DValue VNone) Field :: unit field),
                             (''c'', FieldObj False None (DValue (VInt 3)) Field)]))]
       [(''a'', VDict [(''b'', VNone), (''z'', VInt 1)]), (''q'', VInt 1)]
       False False True True) ''a''
     = Some (VDict [(''c'', VInt 3)])
   \<and> clean (returning VNone)
       [(''a'', FieldObj False None (DValue VNone)
          (DefinedDictField [(''b'', FieldObj False None (DValue VNone) Field :: unit field),
                             (''c'', FieldObj False None (DValue (VInt 3)) Field)]))]
       [(''a'', VDict [(''b'', VNone), (''z'', VInt 1)]), (''q'', VInt 1)]
       False False True True
     = [(''a'', VDict [(''c'', VInt 3)]), (''q'', VInt 1)]"
  using clean_nested_default_flags [of
      "[(''a'', FieldObj False None (DValue VNone)
          (DefinedDictField [(''b'', FieldObj False None (DValue VNone) Field :: unit field),
                             (''c'', FieldObj False None (DValue (VInt 3)) Field)]))]"
      "''a''"
      "FieldObj False None (DValue VNone)
          (DefinedDictField [(''b'', FieldObj False None (DValue VNone) Field :: unit field),
                             (''c'', FieldObj False None (DValue (VInt 3)) Field)])"
      "[(''b'', FieldObj False None (DValue VNone) Field :: unit field),
                             (''c'', FieldObj False None (DValue (VInt 3)) Field)]"
      "[(''a'', VDict [(''b'', VNone), (''z'', VInt 1)]), (''q'', VInt 1)]"
      "[(''b'', VNone), (''z'', VInt 1)]" "returning VNone" False False True True]
  by (simp add: dict_get_def dict_set_def dict_pop_def Field_get_default_value_def)

text \<open>
  The model of a nested-schema field is smaller than the field table that holds the
  field, and the two conditions on a schema pass to its fields and their models.
\<close>

lemma model_smaller:
  "(k, f) \<in> set fields \<Longrightarrow> cls f = DefinedDictField model \<Longrightarrow>
   size_list (size_prod (\<lambda>_. 0) size) model < size_list (size_prod (\<lambda>_. 0) size) fields"
proof (induction fields)
  case Nil
  then show ?case by simp
next
  case (Cons a fields)
  show ?case
  proof (cases "a = (k, f)")
    case True
    with Cons.prems(2) show ?thesis by (cases f) simp
  next
    case False
    with Cons have "size_list (size_prod (\<lambda>_. 0) size) model
        < size_list (size_prod (\<lambda>_. 0) size) fields" by simp
    then show ?thesis by simp
  qed
qed

lemma no_null_defaults_member:
  "no_null_defaults call fields \<Longrightarrow> (k, f) \<in> set fields \<Longrightarrow>
   (case cls f of
      DefinedDictField model \<Rightarrow> no_null_defaults call model
    | _ \<Rightarrow> (case default_attr f of DValue v \<Rightarrow> True | DCallable g \<Rightarrow> call g f \<noteq> VNone))"
  by (induction fields) auto

lemma models_keys_distinct_member:
  "models_keys_distinct fields \<Longrightarrow> (k, f) \<in> set fields \<Longrightarrow>
   cls f = DefinedDictField model \<Longrightarrow> keys_distinct model"
  by (induction fields) (auto simp del: keys_distinct.simps)

lemma clean_loop_fixed:
  assumes "\<And>k f. (k, f) \<in> set fs \<Longrightarrow>
      (case map_of D k of
         None \<Rightarrow> default_attr f = DValue VNone
       | Some v \<Rightarrow> v \<noteq> VNone \<and>
           (\<forall>model nested. cls f = DefinedDictField model \<longrightarrow> v = VDict nested \<longrightarrow>
              clean call model nested True True False False = nested))"
  shows "clean_loop call fs D True False False = D"
  using assms
proof (induction fs)
  case Nil
  then show ?case by simp
next
  case (Cons a fs)
  obtain k f where a: "a = (k, f)" by (cases a)
  have ok: "(case map_of D k of
         None \<Rightarrow> default_attr f = DValue VNone
       | Some v \<Rightarrow> v \<noteq> VNone \<and>
           (\<forall>model nested. cls f = DefinedDictField model \<longrightarrow> v = VDict nested \<longrightarrow>
              clean call model nested True True False False = nested))"
    using Cons.prems [of k f] a by simp
  have rest: "clean_loop call fs D True False False = D"
    using Cons.IH Cons.prems by simp
  have triv: "dict_set D k v = D" if "map_of D k = Some v" for v
    using that by (simp add: dict_set_def update_triv)
  show ?case
    using ok rest
    by (auto simp: a dict_get_def triv simp del: clean.simps get_default_value.simps
        split: option.splits field_class.splits pyval.splits)
qed

lemma clean_make_default:
  "keys_distinct fields \<Longrightarrow> no_null_defaults call fields \<Longrightarrow>
   clean call fields (make_default call fields) True True False False = make_default call fields"
proof (induction fields rule: measure_induct_rule [where f = "size_list (size_prod (\<lambda>_. 0) size)"])
  case (less fields)
  let ?D = "make_default call fields"
  from less.prems(1) have dist: "distinct (map fst fields)" and sub: "models_keys_distinct fields"
    by simp_all
  have look: "map_of ?D key =
      (case map_of fields key of
         None \<Rightarrow> None
       | Some f \<Rightarrow> if default_attr f = DValue VNone then None
                   else Some (get_default_value call f))" for key
    using make_default_loop_map_of [OF dist, of call "[]" key]
    by (simp del: get_default_value.simps split: option.splits)
  have loop: "clean_loop call fields ?D True False False = ?D"
  proof (rule clean_loop_fixed)
    fix k f
    assume mem: "(k, f) \<in> set fields"
    with dist have kf: "map_of fields k = Some f" by simp
    show "case map_of ?D k of
         None \<Rightarrow> default_attr f = DValue VNone
       | Some v \<Rightarrow> v \<noteq> VNone \<and>
           (\<forall>model nested. cls f = DefinedDictField model \<longrightarrow> v = VDict nested \<longrightarrow>
              clean call model nested True True False False = nested)"
    proof (cases "default_attr f = DValue VNone")
      case True
      then show ?thesis by (simp add: look kf del: make_default.simps)
    next
      case False
      then have val: "map_of ?D k = Some (get_default_value call f)"
        by (simp add: look kf del: make_default.simps get_default_value.simps)
      show ?thesis
      proof (cases "is_DefinedDictField f")
        case True
        then obtain model where m: "cls f = DefinedDictField model"
          by (auto simp: is_DefinedDictField_def split: field_class.splits)
        have small: "size_list (size_prod (\<lambda>_. 0) size) model
            < size_list (size_prod (\<lambda>_. 0) size) fields"
          using model_smaller [OF mem m] .
        have "keys_distinct model" using models_keys_distinct_member [OF sub mem m] .
        moreover have "no_null_defaults call model"
          using no_null_defaults_member [OF less.prems(2) mem] m by simp
        ultimately have "clean call model (make_default call model) True True False False
            = make_default call model"
          using less.IH [OF small] by simp
        then show ?thesis
          using m by (simp add: val del: make_default.simps clean.simps)
      next
        case nn: False
        have "get_default_value call f \<noteq> VNone"
          using no_null_defaults_member [OF less.prems(2) mem] nn False
          by (auto simp: is_DefinedDictField_def Field_get_default_value_def
              split: field_class.splits pydefault.splits)
        then show ?thesis
          using nn by (auto simp: val is_DefinedDictField_def
              simp del: make_default.simps clean.simps get_default_value.simps)
      qed
    qed
  qed
  have "map_of fields key \<noteq> None" if "map_of ?D key \<noteq> None" for key
    using that by (auto simp: look simp del: make_default.simps split: option.splits)
  then have "fst ` set ?D \<subseteq> fst ` set fields"
    by (metis (no_types, lifting) map_of_eq_None_iff subsetI)
  then have none: "filter (\<lambda>key. key \<notin> set (map fst fields)) (map fst ?D) = []"
    by (auto simp: filter_empty_conv simp del: make_default.simps)
  show ?case
    using loop none
    by (simp add: Let_def del: make_default.simps clean_loop.simps)
qed


text \<open>
  Claim C9: for a schema with no null-valued defaults, cleaning the document that
  \<^verbatim>\<open>make_default\<close> builds is idempotent: \<^verbatim>\<open>clean\<close> with the default flags, applied to
  the result of its first application, gives that result again. The first application
  already leaves the default document as it is.
\<close>

theorem clean_default_idempotent:
  assumes "keys_distinct fields" and "no_null_defaults call fields"
  shows "clean call fields (clean call fields (make_default call fields) True True False False)
             True True False False
           = clean call fields (make_default call fields) True True False False
         \<and> clean call fields (make_default call fields) True True False False
           = make_default call fields"
  using clean_make_default [OF assms] by (simp del: clean.simps make_default.simps)

theorem clean_default_idempotent_witness:
  "clean (returning (VInt 7))
      [(''a'', FieldObj False None (DValue (VInt 5)) Field :: unit field),
       (''n'', FieldObj False None (DValue (VDict []))
          (DefinedDictField [(''b'', FieldObj False None (DCallable ()) Field)])),
       (''c'', FieldObj False None (DValue VNone) Field)]
      (clean (returning (VInt 7))
        [(''a'', FieldObj False None (DValue (VInt 5)) Field :: unit field),
         (''n'', FieldObj False None (DValue (VDict []))
            (DefinedDictField [(''b'', FieldObj False None (DCallable ()) Field)])),
         (''c'', FieldObj False None (DValue VNone) Field)]
        (make_default (returning (VInt 7))
          [(''a'', FieldObj False None (DValue (VInt 5)) Field :: unit field),
           (''n'', FieldObj False None (DValue (VDict []))
              (DefinedDictField [(''b'', FieldObj False None (DCallable ()) Field)])),
           (''c'', FieldObj False None (DValue VNone) Field)])
        True True False False)
      True True False False
   = [(''a'', VInt 5), (''n'', VDict [(''b'', VInt 7)])]"
  using clean_default_idempotent [of
      "[(''a'', FieldObj False None (DValue (VInt 5)) Field :: unit field),
       (''n'', FieldObj False None (DValue (VDict []))
          (DefinedDictField [(''b'', FieldObj False None (DCallable ()) Field)])),
       (''c'', FieldObj False None (DValue VNone) Field)]"
      "returning (VInt 7)"]
  by (simp add: returning_def dict_set_def dict_get_def dict_pop_def Field_get_default_value_def)

text \<open>
  The condition on the defaults is needed: with a callable default that returns
  \<^verbatim>\<open>None\<close>, the default document is \<^verbatim>\<open>{a: None}\<close>, cleaning it removes \<^verbatim>\<open>a\<close>, and
  cleaning the result sets \<^verbatim>\<open>a\<close> to \<^verbatim>\<open>None\<close> again.
\<close>

lemma clean_default_null_default:
  "make_default (returning VNone) [(''a'', FieldObj False None (DCallable ()) Field)]
     = [(''a'', VNone)]
   \<and> clean (returning VNone) [(''a'', FieldObj False None (DCallable ()) Field)]
       [(''a'', VNone)] True True False False = []
   \<and> clean (returning VNone) [(''a'', FieldObj False None (DCallable ()) Field)]
       [] True True False False = [(''a'', VNone)]"
  by (simp add: returning_def dict_set_def dict_get_def dict_pop_def Field_get_default_value_def)

end
